theory Spec2Isabelle
  imports Complex_Main
begin

section \<open>Python values\<close>

text \<open>
  A Python \<^verbatim>\<open>str\<close> is a sequence of Unicode code points. The text handed to the
  analyzer is annotated \<^verbatim>\<open>str\<close>; the guards of the analyzer also accept the two
  missing values \<^verbatim>\<open>None\<close> and the float \<^verbatim>\<open>nan\<close>. A Python \<^verbatim>\<open>float\<close> is
  modelled as a real number: comparison, \<^verbatim>\<open>min\<close> and \<open>max\<close> are exact on floats, the
  rounding of \<^verbatim>\<open>+\<close>, \<^verbatim>\<open>/\<close> and \<^verbatim>\<open>*\<close> is not modelled.
\<close>

type_synonym pystr = "nat list"

definition ascii :: "string \<Rightarrow> pystr" where
  "ascii s = map of_char s"

datatype pytext = PyNone | NaN | Str pystr

text \<open>\<^verbatim>\<open>not text\<close>: \<^verbatim>\<open>None\<close> and the empty string are falsy, \<^verbatim>\<open>nan\<close> is truthy.\<close>

fun py_not :: "pytext \<Rightarrow> bool" where
  "py_not PyNone = True"
| "py_not NaN = False"
| "py_not (Str s) = (s = [])"

text \<open>\<^verbatim>\<open>pd.isna(text)\<close> on a scalar.\<close>

fun pd_isna :: "pytext \<Rightarrow> bool" where
  "pd_isna PyNone = True"
| "pd_isna NaN = True"
| "pd_isna (Str s) = False"

text \<open>
  \<^verbatim>\<open>str.isspace\<close> of one code point: the separators of \<^verbatim>\<open>str.split()\<close> without
  arguments.
\<close>

definition isspace :: "nat \<Rightarrow> bool" where
  "isspace c \<longleftrightarrow>
     (9 \<le> c \<and> c \<le> 13) \<or> (28 \<le> c \<and> c \<le> 32) \<or> c = 133 \<or> c = 160 \<or> c = 5760
     \<or> (8192 \<le> c \<and> c \<le> 8202) \<or> c = 8232 \<or> c = 8233 \<or> c = 8239 \<or> c = 8287
     \<or> c = 12288"

text \<open>
  \<^verbatim>\<open>str.split()\<close>: the maximal runs of non-space code points, in order. The first
  argument is the token being read.
\<close>

fun split_from :: "pystr \<Rightarrow> pystr \<Rightarrow> pystr list" where
  "split_from cur [] = (if cur = [] then [] else [cur])"
| "split_from cur (c # cs) =
     (if isspace c then (if cur = [] then split_from [] cs else cur # split_from [] cs)
      else split_from (cur @ [c]) cs)"

definition str_split :: "pystr \<Rightarrow> pystr list" where
  "str_split s = split_from [] s"

text \<open>Python's two-argument \<^verbatim>\<open>min\<close> and \<^verbatim>\<open>max\<close> keep the first argument on a tie.\<close>

definition py_min :: "real \<Rightarrow> real \<Rightarrow> real" where
  "py_min a b = (if b < a then b else a)"

definition py_max :: "real \<Rightarrow> real \<Rightarrow> real" where
  "py_max a b = (if a < b then b else a)"

section \<open>The libraries the analyzer calls\<close>

text \<open>
  \<^verbatim>\<open>str.lower\<close> (the interpreter's Unicode case mapping) and the two properties of a
  \<^verbatim>\<open>TextBlob\<close> are parameters of the model: nothing is assumed about them.
\<close>

record libs =
  str_lower :: "pystr \<Rightarrow> pystr"
  blob_polarity :: "pystr \<Rightarrow> real"
  blob_subjectivity :: "pystr \<Rightarrow> real"

text \<open>The dictionary \<^verbatim>\<open>polarity_scores\<close> of VADER returns.\<close>

record vader_scores =
  compound :: real
  pos :: real
  neu :: real
  neg :: real

section \<open>The class SentimentAnalyzer\<close>

record analyzer =
  vader_analyzer :: "(pystr \<Rightarrow> vader_scores) option"
  positive_words :: "pystr set"
  negative_words :: "pystr set"

text \<open>
  \<^verbatim>\<open>__init__\<close>, given the module's flag \<^verbatim>\<open>VADER_AVAILABLE\<close> and the
  \<^verbatim>\<open>polarity_scores\<close> of a \<^verbatim>\<open>SentimentIntensityAnalyzer\<close>.
\<close>

definition init :: "bool \<Rightarrow> (pystr \<Rightarrow> vader_scores) \<Rightarrow> analyzer" where
  "init VADER_AVAILABLE sia =
     \<lparr>vader_analyzer = (if VADER_AVAILABLE then Some sia else None),
      positive_words = set
        [ascii ''bom'', ascii ''boa'', 243 # ascii ''timo'', 243 # ascii ''tima'',
         ascii ''excelente'', ascii ''fant'' @ 225 # ascii ''stico'',
         ascii ''fant'' @ 225 # ascii ''stica'', ascii ''incr'' @ 237 # ascii ''vel'',
         ascii ''maravilhoso'', ascii ''maravilhosa'', ascii ''perfeito'', ascii ''perfeita'',
         ascii ''adoro'', ascii ''amo'', ascii ''gosto'', ascii ''recomendo'',
         ascii ''satisfeito'', ascii ''satisfeita'', ascii ''feliz'', ascii ''alegre'',
         ascii ''contente'', ascii ''impressionado'', ascii ''impressionada'',
         ascii ''surpreendente'', ascii ''genial'', ascii ''brilhante'', ascii ''espetacular'',
         ascii ''magn'' @ 237 # ascii ''fico'', ascii ''delicioso'', ascii ''deliciosa'',
         ascii ''saboroso'', ascii ''saborosa'', ascii ''gostoso'', ascii ''gostosa''],
      negative_words = set
        [ascii ''ruim'', ascii ''p'' @ 233 # ascii ''ssimo'', ascii ''p'' @ 233 # ascii ''ssima'',
         ascii ''horr'' @ 237 # ascii ''vel'', ascii ''terr'' @ 237 # ascii ''vel'',
         ascii ''odioso'', ascii ''detesto'', ascii ''odeio'', ascii ''desgosto'',
         ascii ''desapontado'', ascii ''desapontada'', ascii ''frustrado'', ascii ''frustrada'',
         ascii ''irritado'', ascii ''irritada'', ascii ''bravo'', ascii ''brava'',
         ascii ''furioso'', ascii ''furiosa'', ascii ''chateado'', ascii ''chateada'',
         ascii ''triste'', ascii ''deprimido'', ascii ''deprimida'', ascii ''angustiado'',
         ascii ''angustiada'', ascii ''preocupado'', ascii ''preocupada'', ascii ''nervoso'',
         ascii ''nervosa'', ascii ''ansioso'', ascii ''ansiosa'', ascii ''medo'',
         ascii ''assustado'', ascii ''assustada'', ascii ''decepcionado'',
         ascii ''decepcionada'', ascii ''chocado'', ascii ''chocada'']\<rparr>"

text \<open>The dictionary \<^verbatim>\<open>analyze_with_textblob\<close> returns.\<close>

record textblob_result =
  polarity :: real
  subjectivity :: real

text \<open>\<^verbatim>\<open>sum(1 for word in words if word in lexicon)\<close>.\<close>

fun count_in :: "pystr set \<Rightarrow> pystr list \<Rightarrow> int" where
  "count_in lexicon [] = 0"
| "count_in lexicon (word # words) =
     (if word \<in> lexicon then 1 + count_in lexicon words else count_in lexicon words)"

text \<open>
  After the guard the text is a non-empty \<^verbatim>\<open>str\<close>: \<^verbatim>\<open>None\<close> and \<^verbatim>\<open>nan\<close> never
  reach the last case.
\<close>

definition analyze_with_textblob :: "libs \<Rightarrow> analyzer \<Rightarrow> pytext \<Rightarrow> textblob_result" where
  "analyze_with_textblob L self text =
     (if py_not text \<or> pd_isna text then \<lparr>polarity = 0, subjectivity = 0\<rparr>
      else case text of
        Str s \<Rightarrow>
          (let words = str_split (str_lower L s);
               positive_count = count_in (positive_words self) words;
               negative_count = count_in (negative_words self) words;
               polarity =
                 (if positive_count > negative_count
                    then py_min 1 (blob_polarity L s + 3 / 10)
                  else if negative_count > positive_count
                    then py_max (- 1) (blob_polarity L s - 3 / 10)
                  else blob_polarity L s)
           in \<lparr>polarity = polarity, subjectivity = blob_subjectivity L s\<rparr>)
      | _ \<Rightarrow> \<lparr>polarity = 0, subjectivity = 0\<rparr>)"

definition vader_fallback :: vader_scores where
  "vader_fallback = \<lparr>compound = 0, pos = 0, neu = 1, neg = 0\<rparr>"

definition analyze_with_vader :: "analyzer \<Rightarrow> pytext \<Rightarrow> vader_scores" where
  "analyze_with_vader self text =
     (if py_not text \<or> pd_isna text then \<lparr>compound = 0, pos = 0, neu = 1, neg = 0\<rparr>
      else case vader_analyzer self of
        None \<Rightarrow> \<lparr>compound = 0, pos = 0, neu = 1, neg = 0\<rparr>
      | Some polarity_scores \<Rightarrow>
          (case text of Str s \<Rightarrow> polarity_scores s
           | _ \<Rightarrow> \<lparr>compound = 0, pos = 0, neu = 1, neg = 0\<rparr>))"

definition classify_sentiment :: "real \<Rightarrow> real \<Rightarrow> pystr" where
  "classify_sentiment p threshold =
     (if p > threshold then ascii ''positivo''
      else if p < - threshold then ascii ''negativo''
      else ascii ''neutro'')"

text \<open>The default of the parameter \<^verbatim>\<open>threshold\<close>.\<close>

definition default_threshold :: real where
  "default_threshold = 1 / 10"

text \<open>The dictionary \<^verbatim>\<open>analyze_text\<close> returns, one field for each key.\<close>

record scored =
  text_of :: pytext
  sentiment_class :: pystr
  rec_polarity :: real
  rec_subjectivity :: real
  vader_compound :: real
  vader_pos :: real
  vader_neu :: real
  vader_neg :: real

definition analyze_text :: "libs \<Rightarrow> analyzer \<Rightarrow> pytext \<Rightarrow> scored" where
  "analyze_text L self text =
     (let textblob_result = analyze_with_textblob L self text;
          vader_result = analyze_with_vader self text;
          sentiment_class = classify_sentiment (polarity textblob_result) default_threshold
      in \<lparr>text_of = text,
          sentiment_class = sentiment_class,
          rec_polarity = polarity textblob_result,
          rec_subjectivity = subjectivity textblob_result,
          vader_compound = compound vader_result,
          vader_pos = pos vader_result,
          vader_neu = neu vader_result,
          vader_neg = neg vader_result\<rparr>)"

section \<open>The pandas objects the analyzer works on\<close>

text \<open>
  A \<^verbatim>\<open>DataFrame\<close> is its row labels and its labelled columns, in order. A column is
  of dtype \<^verbatim>\<open>object\<close> (cells \<^verbatim>\<open>None\<close>, \<^verbatim>\<open>nan\<close> or a \<^verbatim>\<open>str\<close>) or of dtype
  \<^verbatim>\<open>float64\<close> (a number, or \<^verbatim>\<open>nan\<close> written \<open>None\<close>). Row labels are integers, as
  the frames built from lists of dictionaries and their filtered copies have them.
  Frames with a repeated column label are outside the model: \<^verbatim>\<open>df[name]\<close> is the
  first column of that name.
\<close>

datatype py_error = KeyError | ValueError | TypeError | InvalidIndexError

datatype column = ObjectCol "pytext list" | FloatCol "real option list"

datatype cell = Obj pytext | Flt "real option"

fun cells :: "column \<Rightarrow> cell list" where
  "cells (ObjectCol xs) = map Obj xs"
| "cells (FloatCol xs) = map Flt xs"

fun isnull :: "cell \<Rightarrow> bool" where
  "isnull (Obj t) = pd_isna t"
| "isnull (Flt x) = (x = None)"

record dataframe =
  index :: "int list"
  columns :: "(string \<times> column) list"

definition len :: "dataframe \<Rightarrow> nat" where
  "len df = length (index df)"

text \<open>Every column has one cell for each row label, and no column label is repeated.\<close>

definition wf_frame :: "dataframe \<Rightarrow> bool" where
  "wf_frame df \<longleftrightarrow>
     list_all (\<lambda>nc. length (cells (snd nc)) = length (index df)) (columns df)
     \<and> distinct (map fst (columns df))"

text \<open>\<^verbatim>\<open>df[name]\<close>: a missing label raises \<^verbatim>\<open>KeyError\<close>.\<close>

definition getitem :: "dataframe \<Rightarrow> string \<Rightarrow> py_error + column" where
  "getitem df name =
     (case map_of (columns df) name of None \<Rightarrow> Inl KeyError | Some c \<Rightarrow> Inr c)"

text \<open>
  \<^verbatim>\<open>pd.DataFrame(records)\<close> for a list of the dictionaries \<^verbatim>\<open>analyze_text\<close> returns:
  the labels are 0, 1, ... and the columns are the keys of the dictionaries. An empty
  list gives a frame with no rows and no columns.
\<close>

definition DataFrame :: "scored list \<Rightarrow> dataframe" where
  "DataFrame records =
     (if records = [] then \<lparr>index = [], columns = []\<rparr>
      else
        \<lparr>index = map int [0 ..< length records],
         columns =
           [(''text'', ObjectCol (map text_of records)),
            (''sentiment_class'', ObjectCol (map (\<lambda>r. Str (sentiment_class r)) records)),
            (''polarity'', FloatCol (map (\<lambda>r. Some (rec_polarity r)) records)),
            (''subjectivity'', FloatCol (map (\<lambda>r. Some (rec_subjectivity r)) records)),
            (''vader_compound'', FloatCol (map (\<lambda>r. Some (vader_compound r)) records)),
            (''vader_pos'', FloatCol (map (\<lambda>r. Some (vader_pos r)) records)),
            (''vader_neu'', FloatCol (map (\<lambda>r. Some (vader_neu r)) records)),
            (''vader_neg'', FloatCol (map (\<lambda>r. Some (vader_neg r)) records))]\<rparr>)"

text \<open>
  \<^verbatim>\<open>df.drop(name, axis=1)\<close>: a new frame without the columns of that label;
  \<^verbatim>\<open>KeyError\<close> when there is none.
\<close>

definition df_drop :: "dataframe \<Rightarrow> string \<Rightarrow> py_error + dataframe" where
  "df_drop df name =
     (if name \<in> set (map fst (columns df))
      then Inr (df\<lparr>columns := filter (\<lambda>nc. fst nc \<noteq> name) (columns df)\<rparr>)
      else Inl KeyError)"

text \<open>A column read at new row labels; a label the column does not have gives \<^verbatim>\<open>nan\<close>.\<close>

fun reindex_col :: "int list \<Rightarrow> int list \<Rightarrow> column \<Rightarrow> column" where
  "reindex_col old new (ObjectCol xs) =
     ObjectCol (map (\<lambda>l. case map_of (zip old xs) l of None \<Rightarrow> NaN | Some x \<Rightarrow> x) new)"
| "reindex_col old new (FloatCol xs) =
     FloatCol (map (\<lambda>l. case map_of (zip old xs) l of None \<Rightarrow> None | Some x \<Rightarrow> x) new)"

text \<open>
  \<^verbatim>\<open>pd.concat([a, b], axis=1)\<close>: the columns of both frames side by side, the rows
  aligned on their labels (an outer join). Equal label sequences are kept as they are.
  Otherwise the result has every label of either frame once (here: those of \<^verbatim>\<open>a\<close>,
  then the new ones of \<^verbatim>\<open>b\<close>), both frames are read at these labels, and a repeated
  label in either frame raises \<^verbatim>\<open>InvalidIndexError\<close>.
\<close>

definition pd_concat :: "dataframe \<Rightarrow> dataframe \<Rightarrow> py_error + dataframe" where
  "pd_concat a b =
     (if index a = index b then Inr \<lparr>index = index a, columns = columns a @ columns b\<rparr>
      else if \<not> distinct (index a) \<or> \<not> distinct (index b) then Inl InvalidIndexError
      else
        let new = index a @ filter (\<lambda>l. l \<notin> set (index a)) (index b)
        in Inr \<lparr>index = new,
                columns =
                  map (\<lambda>nc. (fst nc, reindex_col (index a) new (snd nc))) (columns a)
                  @ map (\<lambda>nc. (fst nc, reindex_col (index b) new (snd nc))) (columns b)\<rparr>)"

text \<open>
  The objects live in a store; a reference is a position in it, and a new object is
  appended. None of the pandas calls of the analyzer writes to an existing object.
\<close>

type_synonym ref = nat

type_synonym heap = "dataframe list"

definition alloc :: "heap \<Rightarrow> dataframe \<Rightarrow> ref \<times> heap" where
  "alloc h v = (length h, h @ [v])"

text \<open>
  The values the loop reads from the text column. A cell of a float column is a Python
  float: \<^verbatim>\<open>nan\<close> is a missing text; 0.0 is falsy and takes the guard of both scorers
  as \<^verbatim>\<open>nan\<close> does (the record's text is dropped again on line 178, so \<^verbatim>\<open>nan\<close>
  stands for it); on any other number \<^verbatim>\<open>TextBlob\<close> raises \<^verbatim>\<open>TypeError\<close>.
\<close>

fun text_values :: "column \<Rightarrow> (py_error + pytext) list" where
  "text_values (ObjectCol xs) = map Inr xs"
| "text_values (FloatCol xs) =
     map (\<lambda>x. case x of None \<Rightarrow> Inr NaN
               | Some r \<Rightarrow> if r = 0 then Inr NaN else Inl TypeError) xs"

text \<open>
  The loop of lines 169 to 172: the results are appended in the order of the rows; the
  first exception ends the loop.
\<close>

fun analyze_all :: "libs \<Rightarrow> analyzer \<Rightarrow> (py_error + pytext) list \<Rightarrow> py_error + scored list" where
  "analyze_all L self [] = Inr []"
| "analyze_all L self (Inl e # rest) = Inl e"
| "analyze_all L self (Inr t # rest) =
     (case analyze_all L self rest of
        Inl e \<Rightarrow> Inl e
      | Inr results \<Rightarrow> Inr (analyze_text L self t # results))"

text \<open>
  \<^verbatim>\<open>analyze_dataframe\<close>, on the store: the argument and the result are references.
  The call to \<^verbatim>\<open>print\<close> is left out.
\<close>

definition analyze_dataframe ::
  "libs \<Rightarrow> analyzer \<Rightarrow> heap \<Rightarrow> ref \<Rightarrow> string \<Rightarrow> (py_error + ref) \<times> heap" where
  "analyze_dataframe L self h df text_column =
     (let (df_analyzed, h1) = alloc h (h ! df)
      in case getitem (h1 ! df_analyzed) text_column of
           Inl e \<Rightarrow> (Inl e, h1)
         | Inr col \<Rightarrow>
            (case analyze_all L self (text_values col) of
               Inl e \<Rightarrow> (Inl e, h1)
             | Inr sentiment_results \<Rightarrow>
                (let (sentiment_df, h2) = alloc h1 (DataFrame sentiment_results)
                 in case df_drop (h2 ! sentiment_df) ''text'' of
                      Inl e \<Rightarrow> (Inl e, h2)
                    | Inr dropped \<Rightarrow>
                       (let (dropped_df, h3) = alloc h2 dropped
                        in case pd_concat (h3 ! df_analyzed) (h3 ! dropped_df) of
                             Inl e \<Rightarrow> (Inl e, h3)
                           | Inr combined \<Rightarrow>
                              (let (df_analyzed', h4) = alloc h3 combined
                               in (Inr df_analyzed', h4))))))"

section \<open>The summary\<close>

text \<open>
  \<^verbatim>\<open>Series.value_counts().to_dict()\<close>: the number of occurrences of every value that
  is not null. The order of the keys is not modelled: the dictionary is a map.
\<close>

definition tally :: "(cell \<rightharpoonup> nat) \<Rightarrow> cell \<Rightarrow> (cell \<rightharpoonup> nat)" where
  "tally seen v = seen(v \<mapsto> Suc (case seen v of None \<Rightarrow> 0 | Some n \<Rightarrow> n))"

definition value_counts :: "column \<Rightarrow> (cell \<rightharpoonup> nat)" where
  "value_counts col = foldl tally Map.empty (filter (\<lambda>x. \<not> isnull x) (cells col))"

text \<open>
  \<^verbatim>\<open>value_counts(normalize=True)\<close> divides every count by the number of cells that
  are not null.
\<close>

definition value_counts_normalized :: "column \<Rightarrow> (cell \<rightharpoonup> real)" where
  "value_counts_normalized col =
     (\<lambda>k. map_option
        (\<lambda>c. real c / real (length (filter (\<lambda>x. \<not> isnull x) (cells col))))
        (value_counts col k))"

text \<open>
  \<^verbatim>\<open>Series.describe()\<close>. On a float column: the number of cells that are not
  \<^verbatim>\<open>nan\<close>, their mean, sample standard deviation, minimum, quartiles (linear
  interpolation) and maximum; a statistic that is not defined is \<^verbatim>\<open>nan\<close>, written
  \<open>None\<close>. On an object column: the number of cells that are not null, the number of
  distinct ones, a most frequent one and its frequency.
\<close>

record numeric_stats =
  st_count :: nat
  st_mean :: "real option"
  st_std :: "real option"
  st_min :: "real option"
  st_q25 :: "real option"
  st_q50 :: "real option"
  st_q75 :: "real option"
  st_max :: "real option"

record object_stats =
  ob_count :: nat
  ob_unique :: nat
  ob_top :: "pytext option"
  ob_freq :: "nat option"

datatype describe_result = NumericStats numeric_stats | ObjectStats object_stats

definition mean :: "real list \<Rightarrow> real" where
  "mean vs = sum_list vs / real (length vs)"

definition std :: "real list \<Rightarrow> real" where
  "std vs = sqrt (sum_list (map (\<lambda>v. (v - mean vs)\<^sup>2) vs) / real (length vs - 1))"

definition quantile :: "real \<Rightarrow> real list \<Rightarrow> real" where
  "quantile q vs =
     (let sorted_vs = sort vs;
          h = q * real (length vs - 1);
          lo = nat \<lfloor>h\<rfloor>;
          hi = min (lo + 1) (length vs - 1)
      in sorted_vs ! lo + (h - real lo) * (sorted_vs ! hi - sorted_vs ! lo))"

definition most_frequent :: "pytext list \<Rightarrow> pytext option" where
  "most_frequent vs =
     (case remdups vs of
        [] \<Rightarrow> None
      | k # ks \<Rightarrow>
          Some (foldl (\<lambda>best v. if count_list vs v > count_list vs best then v else best) k ks))"

fun describe :: "column \<Rightarrow> describe_result" where
  "describe (FloatCol xs) =
     (let vs = map the (filter (\<lambda>x. x \<noteq> None) xs);
          n = length vs
      in NumericStats
           \<lparr>st_count = n,
            st_mean = (if n = 0 then None else Some (mean vs)),
            st_std = (if n \<le> 1 then None else Some (std vs)),
            st_min = (if n = 0 then None else Some (Min (set vs))),
            st_q25 = (if n = 0 then None else Some (quantile (1 / 4) vs)),
            st_q50 = (if n = 0 then None else Some (quantile (1 / 2) vs)),
            st_q75 = (if n = 0 then None else Some (quantile (3 / 4) vs)),
            st_max = (if n = 0 then None else Some (Max (set vs)))\<rparr>)"
| "describe (ObjectCol xs) =
     (let vs = filter (\<lambda>x. \<not> pd_isna x) xs
      in ObjectStats
           \<lparr>ob_count = length vs,
            ob_unique = length (remdups vs),
            ob_top = most_frequent vs,
            ob_freq = map_option (count_list vs) (most_frequent vs)\<rparr>)"

text \<open>
  \<^verbatim>\<open>Series.idxmax()\<close> and \<^verbatim>\<open>Series.idxmin()\<close>: the row label of the first
  occurrence of the largest (smallest) value that is not \<^verbatim>\<open>nan\<close>. They raise on a
  column without such a value (\<^verbatim>\<open>ValueError\<close>) and on an object column
  (\<^verbatim>\<open>TypeError\<close>).
\<close>

fun labelled :: "int list \<Rightarrow> real option list \<Rightarrow> (int \<times> real) list" where
  "labelled (l # ls) (Some v # xs) = (l, v) # labelled ls xs"
| "labelled (l # ls) (None # xs) = labelled ls xs"
| "labelled ls xs = []"

definition idxmax :: "int list \<Rightarrow> column \<Rightarrow> py_error + int" where
  "idxmax labels col =
     (case col of
        ObjectCol xs \<Rightarrow> (if xs = [] then Inl ValueError else Inl TypeError)
      | FloatCol xs \<Rightarrow>
         (case labelled labels xs of
            [] \<Rightarrow> Inl ValueError
          | p # ps \<Rightarrow>
              Inr (fst (foldl (\<lambda>best q. if snd q > snd best then q else best) p ps))))"

definition idxmin :: "int list \<Rightarrow> column \<Rightarrow> py_error + int" where
  "idxmin labels col =
     (case col of
        ObjectCol xs \<Rightarrow> (if xs = [] then Inl ValueError else Inl TypeError)
      | FloatCol xs \<Rightarrow>
         (case labelled labels xs of
            [] \<Rightarrow> Inl ValueError
          | p # ps \<Rightarrow>
              Inr (fst (foldl (\<lambda>best q. if snd q < snd best then q else best) p ps))))"

text \<open>
  \<^verbatim>\<open>df.loc[label, name]\<close>: the cell of the row with that label; when several rows
  carry the label, the \<^verbatim>\<open>Series\<close> of their cells.
\<close>

datatype loc_result = Scalar cell | Series "cell list"

definition loc :: "dataframe \<Rightarrow> int \<Rightarrow> string \<Rightarrow> py_error + loc_result" where
  "loc df label name =
     (case getitem df name of
        Inl e \<Rightarrow> Inl e
      | Inr col \<Rightarrow>
         (case map snd (filter (\<lambda>lx. fst lx = label) (zip (index df) (cells col))) of
            [] \<Rightarrow> Inl KeyError
          | [x] \<Rightarrow> Inr (Scalar x)
          | xs \<Rightarrow> Inr (Series xs)))"

text \<open>The dictionary \<^verbatim>\<open>get_sentiment_summary\<close> returns; \<open>None\<close> is Python's.\<close>

record summary =
  total_texts :: nat
  sentiment_counts :: "cell \<rightharpoonup> nat"
  sentiment_percentages :: "cell \<rightharpoonup> real"
  polarity_stats :: describe_result
  subjectivity_stats :: describe_result
  most_positive_text :: "loc_result option"
  most_negative_text :: "loc_result option"

text \<open>
  The two conditional expressions of lines 215 and 216: the extremal label is looked for
  only in a frame with rows.
\<close>

definition extremal_text ::
  "(int list \<Rightarrow> column \<Rightarrow> py_error + int) \<Rightarrow> dataframe \<Rightarrow> py_error + loc_result option" where
  "extremal_text idx df =
     (if len df > 0 then
        (case getitem df ''polarity'' of
           Inl e \<Rightarrow> Inl e
         | Inr col \<Rightarrow>
            (case idx (index df) col of
               Inl e \<Rightarrow> Inl e
             | Inr label \<Rightarrow>
                (case loc df label ''text'' of Inl e \<Rightarrow> Inl e | Inr x \<Rightarrow> Inr (Some x))))
      else Inr None)"

definition get_sentiment_summary :: "dataframe \<Rightarrow> py_error + summary" where
  "get_sentiment_summary df =
     (if ''sentiment_class'' \<notin> set (map fst (columns df)) then Inl ValueError
      else case getitem df ''sentiment_class'' of
        Inl e \<Rightarrow> Inl e
      | Inr class_col \<Rightarrow>
         (let sentiment_counts = value_counts class_col;
              sentiment_percentages =
                (\<lambda>k. map_option (\<lambda>v. v * 100) (value_counts_normalized class_col k))
          in case getitem df ''polarity'' of
               Inl e \<Rightarrow> Inl e
             | Inr polarity_col \<Rightarrow>
                (case getitem df ''subjectivity'' of
                   Inl e \<Rightarrow> Inl e
                 | Inr subjectivity_col \<Rightarrow>
                    (case extremal_text idxmax df of
                       Inl e \<Rightarrow> Inl e
                     | Inr most_positive \<Rightarrow>
                        (case extremal_text idxmin df of
                           Inl e \<Rightarrow> Inl e
                         | Inr most_negative \<Rightarrow>
                            Inr \<lparr>total_texts = len df,
                                 sentiment_counts = sentiment_counts,
                                 sentiment_percentages = sentiment_percentages,
                                 polarity_stats = describe polarity_col,
                                 subjectivity_stats = describe subjectivity_col,
                                 most_positive_text = most_positive,
                                 most_negative_text = most_negative\<rparr>)))))"

section \<open>The primary scorer as the specification words it\<close>

text \<open>
  The specification's primary scorer on a non-empty text: the baseline polarity, raised
  or lowered by 0.3 and clamped when one lexicon has strictly more hits among the
  whitespace-separated tokens of the lower-cased text; the baseline subjectivity as it is.
\<close>

definition lexicon_hits :: "libs \<Rightarrow> pystr set \<Rightarrow> pystr \<Rightarrow> nat" where
  "lexicon_hits L lexicon s = length (filter (\<lambda>w. w \<in> lexicon) (str_split (str_lower L s)))"

definition primary_score_spec :: "libs \<Rightarrow> analyzer \<Rightarrow> pystr \<Rightarrow> textblob_result" where
  "primary_score_spec L self s =
     (let pos_count = lexicon_hits L (positive_words self) s;
          neg_count = lexicon_hits L (negative_words self) s;
          base_polarity = blob_polarity L s
      in \<lparr>polarity =
            (if pos_count > neg_count then min 1 (base_polarity + 3 / 10)
             else if neg_count > pos_count then max (- 1) (base_polarity - 3 / 10)
             else base_polarity),
          subjectivity = blob_subjectivity L s\<rparr>)"

text \<open>The baseline estimator stays within the ranges the specification gives it.\<close>

definition baseline_in_range :: "libs \<Rightarrow> bool" where
  "baseline_in_range L \<longleftrightarrow>
     (\<forall>s. - 1 \<le> blob_polarity L s \<and> blob_polarity L s \<le> 1
        \<and> 0 \<le> blob_subjectivity L s \<and> blob_subjectivity L s \<le> 1)"

section \<open>Frames of scored records\<close>

text \<open>
  A collection of scored records as a frame: the columns \<^verbatim>\<open>text\<close> and
  \<^verbatim>\<open>sentiment_class\<close> are object columns, \<^verbatim>\<open>polarity\<close> and
  \<^verbatim>\<open>subjectivity\<close> float columns, every record has a class and a polarity that is
  a number. The frame \<^verbatim>\<open>pd.DataFrame(records)\<close> of a non-empty list of records is
  one.
\<close>

definition scored_frame :: "dataframe \<Rightarrow> bool" where
  "scored_frame df \<longleftrightarrow>
     wf_frame df
     \<and> (case map_of (columns df) ''text'' of Some (ObjectCol ts) \<Rightarrow> True | _ \<Rightarrow> False)
     \<and> (case map_of (columns df) ''sentiment_class'' of
          Some (ObjectCol cs) \<Rightarrow> list_all (\<lambda>c. \<not> pd_isna c) cs | _ \<Rightarrow> False)
     \<and> (case map_of (columns df) ''polarity'' of
          Some (FloatCol ps) \<Rightarrow> list_all (\<lambda>p. p \<noteq> None) ps | _ \<Rightarrow> False)
     \<and> (case map_of (columns df) ''subjectivity'' of Some (FloatCol ss) \<Rightarrow> True | _ \<Rightarrow> False)"

text \<open>The result of \<^verbatim>\<open>describe\<close> when there is nothing to describe.\<close>

fun no_statistics :: "describe_result \<Rightarrow> bool" where
  "no_statistics (NumericStats n) =
     (st_count n = 0 \<and> st_mean n = None \<and> st_std n = None \<and> st_min n = None
      \<and> st_q25 n = None \<and> st_q50 n = None \<and> st_q75 n = None \<and> st_max n = None)"
| "no_statistics (ObjectStats ob) =
     (ob_count ob = 0 \<and> ob_unique ob = 0 \<and> ob_top ob = None \<and> ob_freq ob = None)"

section \<open>Properties of the scorers and the classifier\<close>

lemma ascii_labels_distinct:
  "ascii ''positivo'' \<noteq> ascii ''negativo''"
  "ascii ''positivo'' \<noteq> ascii ''neutro''"
  "ascii ''negativo'' \<noteq> ascii ''neutro''"
  by (simp_all add: ascii_def)

lemma count_in_filter: "count_in lexicon ws = int (length (filter (\<lambda>w. w \<in> lexicon) ws))"
  by (induction ws) simp_all

text \<open>
  C1. With the default threshold 0.1 the classifier answers \<^verbatim>\<open>positivo\<close> exactly when
  the polarity is above 0.1, \<^verbatim>\<open>negativo\<close> exactly when it is below -0.1 and
  \<^verbatim>\<open>neutro\<close> exactly in between; the two boundary values 0.1 and -0.1 are
  \<^verbatim>\<open>neutro\<close>.
\<close>

theorem classify_sentiment_default:
  "(classify_sentiment p default_threshold = ascii ''positivo'' \<longleftrightarrow> p > 1 / 10)
   \<and> (classify_sentiment p default_threshold = ascii ''negativo'' \<longleftrightarrow> p < - (1 / 10))
   \<and> (classify_sentiment p default_threshold = ascii ''neutro''
        \<longleftrightarrow> - (1 / 10) \<le> p \<and> p \<le> 1 / 10)
   \<and> classify_sentiment (1 / 10) default_threshold = ascii ''neutro''
   \<and> classify_sentiment (- (1 / 10)) default_threshold = ascii ''neutro''"
  using ascii_labels_distinct
  by (auto simp: classify_sentiment_def default_threshold_def)

theorem classify_sentiment_default_witness:
  "classify_sentiment (1 / 5) default_threshold = ascii ''positivo''
   \<and> classify_sentiment (- (1 / 5)) default_threshold = ascii ''negativo''
   \<and> classify_sentiment 0 default_threshold = ascii ''neutro''"
  using classify_sentiment_default [of "1 / 5"] classify_sentiment_default [of "- (1 / 5)"]
    classify_sentiment_default [of 0]
  by simp

text \<open>
  C2. On a non-empty text the analyzer's primary score is the specification's: polarity
  min(1, base + 0.3) when the positive lexicon has strictly more hits, max(-1, base - 0.3)
  when the negative lexicon has strictly more, the baseline polarity on equal counts, and
  the baseline subjectivity unchanged.
\<close>

theorem analyze_with_textblob_spec:
  assumes "s \<noteq> []"
  shows "analyze_with_textblob L self (Str s) = primary_score_spec L self s"
  using assms
  by (simp add: analyze_with_textblob_def primary_score_spec_def lexicon_hits_def
      count_in_filter py_min_def py_max_def Let_def min_def max_def)

theorem analyze_with_textblob_spec_witness:
  "ascii ''muito bom'' \<noteq> []
   \<and> analyze_with_textblob
        \<lparr>str_lower = (\<lambda>s. s), blob_polarity = (\<lambda>s. 4 / 5), blob_subjectivity = (\<lambda>s. 1 / 2)\<rparr>
        (init False (\<lambda>s. \<lparr>compound = 1 / 2, pos = 1 / 2, neu = 1 / 2, neg = 0\<rparr>)) (Str (ascii ''muito bom''))
      = \<lparr>polarity = 1, subjectivity = 1 / 2\<rparr>"
  using analyze_with_textblob_spec [of "ascii ''muito bom''"
      "\<lparr>str_lower = (\<lambda>s. s), blob_polarity = (\<lambda>s. 4 / 5), blob_subjectivity = (\<lambda>s. 1 / 2)\<rparr>"
      "init False (\<lambda>s. \<lparr>compound = 1 / 2, pos = 1 / 2, neu = 1 / 2, neg = 0\<rparr>)"]
  by (simp add: primary_score_spec_def lexicon_hits_def str_split_def isspace_def init_def
      ascii_def)

text \<open>
  C3. The class of the record \<^verbatim>\<open>analyze_text\<close> builds is the classifier applied to the
  record's own polarity with the default threshold, and it is the same whatever the
  field \<^verbatim>\<open>vader_analyzer\<close> holds: absent, or any scorer.
\<close>

theorem analyze_text_class:
  "sentiment_class (analyze_text L self t)
     = classify_sentiment (rec_polarity (analyze_text L self t)) default_threshold
   \<and> sentiment_class (analyze_text L (self\<lparr>vader_analyzer := v\<rparr>) t)
     = sentiment_class (analyze_text L self t)"
  by (cases t) (simp_all add: analyze_text_def analyze_with_textblob_def Let_def)

text \<open>
  C4. When the baseline estimator stays in its ranges, the primary scorer's polarity lies
  in [-1, 1] and its subjectivity in [0, 1] for every text; on \<^verbatim>\<open>None\<close>, \<^verbatim>\<open>nan\<close>
  and the empty string the result is exactly polarity 0 and subjectivity 0.
\<close>

theorem analyze_with_textblob_range:
  assumes "baseline_in_range L"
  shows "- 1 \<le> polarity (analyze_with_textblob L self t)
         \<and> polarity (analyze_with_textblob L self t) \<le> 1
         \<and> 0 \<le> subjectivity (analyze_with_textblob L self t)
         \<and> subjectivity (analyze_with_textblob L self t) \<le> 1
         \<and> analyze_with_textblob L self PyNone = \<lparr>polarity = 0, subjectivity = 0\<rparr>
         \<and> analyze_with_textblob L self NaN = \<lparr>polarity = 0, subjectivity = 0\<rparr>
         \<and> analyze_with_textblob L self (Str []) = \<lparr>polarity = 0, subjectivity = 0\<rparr>"
proof -
  have empties:
    "analyze_with_textblob L self PyNone = \<lparr>polarity = 0, subjectivity = 0\<rparr>"
    "analyze_with_textblob L self NaN = \<lparr>polarity = 0, subjectivity = 0\<rparr>"
    "analyze_with_textblob L self (Str []) = \<lparr>polarity = 0, subjectivity = 0\<rparr>"
    by (simp_all add: analyze_with_textblob_def)
  have range: "- 1 \<le> polarity (analyze_with_textblob L self t)
         \<and> polarity (analyze_with_textblob L self t) \<le> 1
         \<and> 0 \<le> subjectivity (analyze_with_textblob L self t)
         \<and> subjectivity (analyze_with_textblob L self t) \<le> 1"
  proof (cases t)
    case (Str s)
    have b: "- 1 \<le> blob_polarity L s" "blob_polarity L s \<le> 1"
      "0 \<le> blob_subjectivity L s" "blob_subjectivity L s \<le> 1"
      using assms by (simp_all add: baseline_in_range_def)
    show ?thesis
    proof (cases "s = []")
      case True
      with Str empties show ?thesis by simp
    next
      case False
      with Str b show ?thesis
        by (simp add: analyze_with_textblob_def py_min_def py_max_def Let_def)
    qed
  qed (simp_all add: empties)
  from range empties show ?thesis by simp
qed

theorem analyze_with_textblob_range_witness:
  "baseline_in_range
     \<lparr>str_lower = (\<lambda>s. s), blob_polarity = (\<lambda>s. - (4 / 5)), blob_subjectivity = (\<lambda>s. 1)\<rparr>
   \<and> polarity (analyze_with_textblob
        \<lparr>str_lower = (\<lambda>s. s), blob_polarity = (\<lambda>s. - (4 / 5)), blob_subjectivity = (\<lambda>s. 1)\<rparr>
        (init False (\<lambda>s. \<lparr>compound = 1 / 2, pos = 1 / 2, neu = 1 / 2, neg = 0\<rparr>)) (Str (ascii ''produto ruim''))) = - 1"
proof -
  let ?L = "\<lparr>str_lower = (\<lambda>s. s), blob_polarity = (\<lambda>s. - (4 / 5)),
              blob_subjectivity = (\<lambda>s. 1)\<rparr> :: libs"
  have h: "baseline_in_range ?L"
    by (simp add: baseline_in_range_def)
  have v: "polarity (analyze_with_textblob ?L (init False (\<lambda>s. \<lparr>compound = 1 / 2, pos = 1 / 2, neu = 1 / 2, neg = 0\<rparr>)) (Str (ascii ''produto ruim'')))
             \<le> - 1"
    by (simp add: analyze_with_textblob_def str_split_def isspace_def init_def ascii_def
        py_max_def)
  from analyze_with_textblob_range [OF h, of "init False (\<lambda>s. \<lparr>compound = 1 / 2, pos = 1 / 2, neu = 1 / 2, neg = 0\<rparr>)" "Str (ascii ''produto ruim'')"] v h
  show ?thesis by simp
qed

text \<open>
  C5. Without a VADER analyzer, and on \<^verbatim>\<open>None\<close>, \<^verbatim>\<open>nan\<close> and the empty string, the
  secondary scorer returns the fixed fallback (compound 0, pos 0, neu 1, neg 0); on a
  non-empty text with an analyzer it returns the analyzer's scores as they are.
\<close>

theorem analyze_with_vader_cases:
  "(vader_analyzer self = None \<or> py_not t \<or> pd_isna t
      \<longrightarrow> analyze_with_vader self t = vader_fallback)
   \<and> (vader_analyzer self = Some polarity_scores \<and> s \<noteq> []
      \<longrightarrow> analyze_with_vader self (Str s) = polarity_scores s)"
  by (cases t) (auto simp: analyze_with_vader_def vader_fallback_def)

theorem analyze_with_vader_cases_witness:
  "analyze_with_vader (init False (\<lambda>s. \<lparr>compound = 1 / 2, pos = 1 / 2, neu = 1 / 2, neg = 0\<rparr>)) (Str (ascii ''bom'')) = vader_fallback
   \<and> analyze_with_vader (init True (\<lambda>s. \<lparr>compound = 1 / 2, pos = 1 / 2, neu = 1 / 2, neg = 0\<rparr>)) (Str []) = vader_fallback
   \<and> analyze_with_vader (init True (\<lambda>s. \<lparr>compound = 1 / 2, pos = 1 / 2, neu = 1 / 2, neg = 0\<rparr>)) (Str (ascii ''bom'')) = \<lparr>compound = 1 / 2, pos = 1 / 2, neu = 1 / 2, neg = 0\<rparr>"
  using analyze_with_vader_cases [of "init False (\<lambda>s. \<lparr>compound = 1 / 2, pos = 1 / 2, neu = 1 / 2, neg = 0\<rparr>)" "Str (ascii ''bom'')" "\<lambda>s. \<lparr>compound = 1 / 2, pos = 1 / 2, neu = 1 / 2, neg = 0\<rparr>" "ascii ''bom''"]
    analyze_with_vader_cases [of "init True (\<lambda>s. \<lparr>compound = 1 / 2, pos = 1 / 2, neu = 1 / 2, neg = 0\<rparr>)" "Str []" "\<lambda>s. \<lparr>compound = 1 / 2, pos = 1 / 2, neu = 1 / 2, neg = 0\<rparr>" "ascii ''bom''"]
  by (simp add: init_def ascii_def)

section \<open>Properties of the batch analyzer\<close>

lemma analyze_all_texts:
  "analyze_all L self (map Inr ts) = Inr (map (analyze_text L self) ts)"
  by (induction ts) simp_all

lemma df_drop_text_DataFrame:
  "df_drop (DataFrame records) ''text'' = Inr dropped
     \<Longrightarrow> records \<noteq> []
         \<and> index dropped = map int [0 ..< length records]
         \<and> map fst (columns dropped)
             = [''sentiment_class'', ''polarity'', ''subjectivity'', ''vader_compound'',
                ''vader_pos'', ''vader_neu'', ''vader_neg'']"
  by (auto simp: df_drop_def DataFrame_def split: if_splits)

lemma pd_concat_labels:
  "pd_concat a b = Inr c \<Longrightarrow> map fst (columns c) = map fst (columns a) @ map fst (columns b)"
  by (auto simp: pd_concat_def Let_def comp_def split: if_splits)

text \<open>
  On a frame with rows whose labels are 0, 1, ... the batch analyzer returns the frame
  with one row of scores for each text, in the order of the texts.
\<close>

lemma analyze_dataframe_aligned:
  assumes "df < length h"
    and "map_of (columns (h ! df)) text_column = Some (ObjectCol ts)"
    and "ts \<noteq> []"
    and "index (h ! df) = map int [0 ..< length ts]"
  shows "\<exists>r h'. analyze_dataframe L self h df text_column = (Inr r, h')
           \<and> index (h' ! r) = index (h ! df)
           \<and> columns (h' ! r)
               = columns (h ! df) @ tl (columns (DataFrame (map (analyze_text L self) ts)))"
  using assms
  by (simp add: analyze_dataframe_def alloc_def getitem_def analyze_all_texts nth_append
      DataFrame_def df_drop_def pd_concat_def)

text \<open>
  C6. The batch analyzer does not give one scored record for each input text on every
  input. On the frame of no texts (no rows, a column \<^verbatim>\<open>processed_text\<close>) the frame
  of the results has no columns, dropping its column \<^verbatim>\<open>text\<close> raises
  \<^verbatim>\<open>KeyError\<close>, and so does \<^verbatim>\<open>analyze_dataframe\<close>. On a frame of two texts
  with the row labels 0 and 2, as a filtered frame has them, the results carry the
  labels 0 and 1, \<^verbatim>\<open>pd.concat\<close> aligns on the labels, and the frame returned has
  three rows.
\<close>

theorem analyze_dataframe_failing_inputs:
  "fst (analyze_dataframe L self
          [\<lparr>index = [], columns = [(''processed_text'', ObjectCol [])]\<rparr>] 0 ''processed_text'')
     = Inl KeyError
   \<and> fst (analyze_dataframe L self
          [\<lparr>index = [0, 2],
            columns = [(''processed_text'', ObjectCol [Str (ascii ''bom''), Str (ascii ''ruim'')])]\<rparr>]
          0 ''processed_text'')
     = Inr 4
   \<and> len (snd (analyze_dataframe L self
          [\<lparr>index = [0, 2],
            columns = [(''processed_text'', ObjectCol [Str (ascii ''bom''), Str (ascii ''ruim'')])]\<rparr>]
          0 ''processed_text'') ! 4)
     = 3"
  by (simp add: analyze_dataframe_def alloc_def getitem_def DataFrame_def df_drop_def
      pd_concat_def len_def Let_def)

text \<open>
  C10. \<^verbatim>\<open>analyze_dataframe\<close> leaves every object of the store as it was, the frame
  it is given among them, whether it returns or raises. When it returns, the frame
  returned is a new object, and its column labels are those of the frame given followed
  by the seven sentiment columns.
\<close>

theorem analyze_dataframe_frame:
  assumes "df < length h"
  shows "take (length h) (snd (analyze_dataframe L self h df text_column)) = h
         \<and> (\<forall>r. fst (analyze_dataframe L self h df text_column) = Inr r
               \<longrightarrow> length h \<le> r \<and> r \<noteq> df
                   \<and> r < length (snd (analyze_dataframe L self h df text_column))
                   \<and> map fst (columns (snd (analyze_dataframe L self h df text_column) ! r))
                       = map fst (columns (h ! df))
                         @ [''sentiment_class'', ''polarity'', ''subjectivity'',
                            ''vader_compound'', ''vader_pos'', ''vader_neu'', ''vader_neg''])"
proof -
  have unchanged: "take (length h) (snd (analyze_dataframe L self h df text_column)) = h"
    by (auto simp: analyze_dataframe_def alloc_def Let_def split: sum.splits prod.splits)
  have returned: "length h \<le> r \<and> r \<noteq> df
      \<and> r < length (snd (analyze_dataframe L self h df text_column))
      \<and> map fst (columns (snd (analyze_dataframe L self h df text_column) ! r))
           = map fst (columns (h ! df))
             @ [''sentiment_class'', ''polarity'', ''subjectivity'',
                ''vader_compound'', ''vader_pos'', ''vader_neu'', ''vader_neg'']"
    if r: "fst (analyze_dataframe L self h df text_column) = Inr r" for r
  proof -
    from r obtain col results dropped combined where
      steps: "getitem (h ! df) text_column = Inr col"
        "analyze_all L self (text_values col) = Inr results"
        "df_drop (DataFrame results) ''text'' = Inr dropped"
        "pd_concat (h ! df) dropped = Inr combined"
      and res: "analyze_dataframe L self h df text_column
                 = (Inr (length h + 3), h @ [h ! df, DataFrame results, dropped, combined])"
      using assms
      by (auto simp: analyze_dataframe_def alloc_def Let_def nth_append
          split: sum.splits prod.splits)
    from res r have req: "r = length h + 3" by simp
    have "map fst (columns combined)
            = map fst (columns (h ! df))
              @ [''sentiment_class'', ''polarity'', ''subjectivity'',
                 ''vader_compound'', ''vader_pos'', ''vader_neu'', ''vader_neg'']"
      using pd_concat_labels [OF steps(4)] df_drop_text_DataFrame [OF steps(3)] by simp
    with res req assms show ?thesis by (simp add: nth_append)
  qed
  from unchanged returned show ?thesis by blast
qed

theorem analyze_dataframe_frame_witness:
  "0 < length [\<lparr>index = [0, 1],
        columns =
          [(''processed_text'', ObjectCol [Str (ascii ''bom''), Str (ascii ''ruim'')])]\<rparr>]
   \<and> fst (analyze_dataframe \<lparr>str_lower = (\<lambda>s. s), blob_polarity = (\<lambda>s. 0), blob_subjectivity = (\<lambda>s. 0)\<rparr> (init True (\<lambda>s. \<lparr>compound = 1 / 2, pos = 1 / 2, neu = 1 / 2, neg = 0\<rparr>)) [\<lparr>index = [0, 1],
        columns =
          [(''processed_text'', ObjectCol [Str (ascii ''bom''), Str (ascii ''ruim'')])]\<rparr>] 0 ''processed_text'') = Inr 4
   \<and> take 1 (snd (analyze_dataframe \<lparr>str_lower = (\<lambda>s. s), blob_polarity = (\<lambda>s. 0), blob_subjectivity = (\<lambda>s. 0)\<rparr> (init True (\<lambda>s. \<lparr>compound = 1 / 2, pos = 1 / 2, neu = 1 / 2, neg = 0\<rparr>)) [\<lparr>index = [0, 1],
        columns =
          [(''processed_text'', ObjectCol [Str (ascii ''bom''), Str (ascii ''ruim'')])]\<rparr>] 0 ''processed_text'')) = [\<lparr>index = [0, 1],
        columns =
          [(''processed_text'', ObjectCol [Str (ascii ''bom''), Str (ascii ''ruim'')])]\<rparr>]
   \<and> map fst (columns (snd (analyze_dataframe \<lparr>str_lower = (\<lambda>s. s), blob_polarity = (\<lambda>s. 0), blob_subjectivity = (\<lambda>s. 0)\<rparr> (init True (\<lambda>s. \<lparr>compound = 1 / 2, pos = 1 / 2, neu = 1 / 2, neg = 0\<rparr>)) [\<lparr>index = [0, 1],
        columns =
          [(''processed_text'', ObjectCol [Str (ascii ''bom''), Str (ascii ''ruim'')])]\<rparr>] 0 ''processed_text'') ! 4))
       = [''processed_text'', ''sentiment_class'', ''polarity'', ''subjectivity'',
          ''vader_compound'', ''vader_pos'', ''vader_neu'', ''vader_neg'']"
proof -
  let ?h = "[\<lparr>index = [0, 1],
        columns =
          [(''processed_text'', ObjectCol [Str (ascii ''bom''), Str (ascii ''ruim'')])]\<rparr>]"
  have v: "0 < length ?h" by simp
  have r: "fst (analyze_dataframe \<lparr>str_lower = (\<lambda>s. s), blob_polarity = (\<lambda>s. 0), blob_subjectivity = (\<lambda>s. 0)\<rparr> (init True (\<lambda>s. \<lparr>compound = 1 / 2, pos = 1 / 2, neu = 1 / 2, neg = 0\<rparr>)) ?h 0 ''processed_text'') = Inr 4"
    by (simp add: analyze_dataframe_def alloc_def getitem_def DataFrame_def df_drop_def
        pd_concat_def Let_def)
  from analyze_dataframe_frame [OF v, of "\<lparr>str_lower = (\<lambda>s. s), blob_polarity = (\<lambda>s. 0), blob_subjectivity = (\<lambda>s. 0)\<rparr>" "init True (\<lambda>s. \<lparr>compound = 1 / 2, pos = 1 / 2, neu = 1 / 2, neg = 0\<rparr>)" "''processed_text''"] r v
  show ?thesis by simp
qed

section \<open>Properties of the summary\<close>

lemma foldl_tally:
  "foldl tally m xs k =
     (if k \<in> set xs then Some (count_list xs k + (case m k of None \<Rightarrow> 0 | Some c \<Rightarrow> c))
      else m k)"
  by (induction xs arbitrary: m) (auto simp: tally_def split: option.splits)

lemma value_counts_tally:
  "value_counts col k =
     (if k \<in> set (filter (\<lambda>x. \<not> isnull x) (cells col))
      then Some (count_list (filter (\<lambda>x. \<not> isnull x) (cells col)) k) else None)"
  by (simp add: value_counts_def foldl_tally)

lemma wf_frame_column:
  assumes "wf_frame df" "map_of (columns df) name = Some col"
  shows "length (cells col) = length (index df)"
proof -
  from assms(2) have "(name, col) \<in> set (columns df)" by (rule map_of_SomeD)
  with assms(1) show ?thesis by (auto simp: wf_frame_def list_all_iff)
qed

lemma column_present:
  "name \<in> set (map fst (columns df)) \<Longrightarrow> \<exists>col. map_of (columns df) name = Some col"
  by (metis map_of_eq_None_iff not_Some_eq set_map)

lemma describe_empty: "cells col = [] \<Longrightarrow> no_statistics (describe col)"
  by (cases col) (simp_all add: most_frequent_def)

lemma value_counts_empty: "cells col = [] \<Longrightarrow> value_counts col = Map.empty"
  by (simp add: value_counts_def)

text \<open>
  C7, on a frame that has the columns. On a frame without rows that has the columns \<^verbatim>\<open>sentiment_class\<close>,
  \<^verbatim>\<open>polarity\<close> and \<^verbatim>\<open>subjectivity\<close>, the summary is returned: the total is 0,
  the counts and the percentages are empty, the statistics of polarity and subjectivity
  are all \<^verbatim>\<open>nan\<close> with a count of 0, and the most positive and most negative text
  are \<^verbatim>\<open>None\<close>.
\<close>

theorem summary_empty:
  assumes "wf_frame df" and "index df = []"
    and "''sentiment_class'' \<in> set (map fst (columns df))"
    and "''polarity'' \<in> set (map fst (columns df))"
    and "''subjectivity'' \<in> set (map fst (columns df))"
  shows "\<exists>s. get_sentiment_summary df = Inr s \<and> total_texts s = 0
           \<and> sentiment_counts s = Map.empty \<and> sentiment_percentages s = Map.empty
           \<and> no_statistics (polarity_stats s) \<and> no_statistics (subjectivity_stats s)
           \<and> most_positive_text s = None \<and> most_negative_text s = None"
proof -
  from column_present [OF assms(3)] obtain cc where cc: "map_of (columns df) ''sentiment_class'' = Some cc" by blast
  from column_present [OF assms(4)] obtain pc where pc: "map_of (columns df) ''polarity'' = Some pc" by blast
  from column_present [OF assms(5)] obtain sc where sc: "map_of (columns df) ''subjectivity'' = Some sc" by blast
  have e: "cells cc = []" "cells pc = []" "cells sc = []"
    using wf_frame_column [OF assms(1)] cc pc sc assms(2) by auto
  have x: "extremal_text idx df = Inr None" for idx
    using assms(2) by (simp add: extremal_text_def len_def)
  show ?thesis
    using assms(3) cc pc sc e x describe_empty [of pc] describe_empty [of sc] assms(2)
    by (simp add: get_sentiment_summary_def getitem_def value_counts_empty
        value_counts_normalized_def len_def)
qed

theorem summary_empty_witness:
  "wf_frame
     \<lparr>index = [],
        columns =
          [(''text'', ObjectCol []), (''sentiment_class'', ObjectCol []),
           (''polarity'', FloatCol []), (''subjectivity'', FloatCol [])]\<rparr>
   \<and> (\<exists>s. get_sentiment_summary
          \<lparr>index = [],
        columns =
          [(''text'', ObjectCol []), (''sentiment_class'', ObjectCol []),
           (''polarity'', FloatCol []), (''subjectivity'', FloatCol [])]\<rparr> = Inr s
        \<and> total_texts s = 0 \<and> sentiment_counts s = Map.empty
        \<and> most_positive_text s = None \<and> most_negative_text s = None)"
proof -
  let ?df = "\<lparr>index = [],
        columns =
          [(''text'', ObjectCol []), (''sentiment_class'', ObjectCol []),
           (''polarity'', FloatCol []), (''subjectivity'', FloatCol [])]\<rparr>"
  have wf: "wf_frame ?df" by (simp add: wf_frame_def)
  from summary_empty [OF wf] wf show ?thesis by auto
qed

text \<open>
  C7 does not hold on the frame of an empty list of records: that frame has no
  columns, and the guard on the column \<^verbatim>\<open>sentiment_class\<close> raises
  \<^verbatim>\<open>ValueError\<close>.
\<close>

theorem summary_no_columns: "get_sentiment_summary (DataFrame []) = Inl ValueError"
  by (simp add: get_sentiment_summary_def DataFrame_def)

lemma labelled_all: "length ls = length ps \<Longrightarrow> labelled ls (map Some ps) = zip ls ps"
  by (induction ls ps rule: list_induct2) simp_all

lemma first_max_nonempty:
  fixes zs :: "('a \<times> real) list"
  assumes "zs \<noteq> []"
  shows "\<exists>i < length zs.
           foldl (\<lambda>best q. if snd q > snd best then q else best) (hd zs) (tl zs) = zs ! i
           \<and> (\<forall>k < length zs. snd (zs ! k) \<le> snd (zs ! i))
           \<and> (\<forall>k < i. snd (zs ! k) < snd (zs ! i))"
  using assms
proof (induction zs rule: rev_nonempty_induct)
  case (single z)
  show ?case by simp
next
  case (snoc q ys)
  let ?f = "\<lambda>best q. if snd q > snd best then q else (best :: 'a \<times> real)"
  from snoc obtain i where i: "i < length ys" "foldl ?f (hd ys) (tl ys) = ys ! i"
    "\<forall>k < length ys. snd (ys ! k) \<le> snd (ys ! i)"
    "\<forall>k < i. snd (ys ! k) < snd (ys ! i)"
    by blast
  have step: "foldl ?f (hd (ys @ [q])) (tl (ys @ [q])) = ?f (ys ! i) q"
    using snoc(1) i(2) by simp
  have old: "(ys @ [q]) ! k = ys ! k" if "k < length ys" for k
    using that by (simp add: nth_append)
  have last: "(ys @ [q]) ! length ys = q" by simp
  show ?case
  proof (cases "snd q > snd (ys ! i)")
    case True
    have a: "foldl ?f (hd (ys @ [q])) (tl (ys @ [q])) = (ys @ [q]) ! length ys"
      using True step last by simp
    have b: "snd ((ys @ [q]) ! k) \<le> snd ((ys @ [q]) ! length ys)"
      if "k < length (ys @ [q])" for k
    proof (cases "k < length ys")
      case kl: True
      with i(3) True have "snd (ys ! k) \<le> snd q" by fastforce
      with kl show ?thesis by (simp add: nth_append)
    next
      case False
      with that have "k = length ys" by simp
      then show ?thesis by simp
    qed
    have c: "snd ((ys @ [q]) ! k) < snd ((ys @ [q]) ! length ys)" if "k < length ys" for k
    proof -
      from i(3) that True have "snd (ys ! k) < snd q" by fastforce
      with that show ?thesis by (simp add: nth_append)
    qed
    show ?thesis
      by (rule exI [of _ "length ys"]) (use a b c in simp)
  next
    case False
    have a: "foldl ?f (hd (ys @ [q])) (tl (ys @ [q])) = (ys @ [q]) ! i"
      using False step old [OF i(1)] by simp
    have b: "snd ((ys @ [q]) ! k) \<le> snd ((ys @ [q]) ! i)" if "k < length (ys @ [q])" for k
    proof (cases "k < length ys")
      case True
      with i(1,3) show ?thesis by (simp add: nth_append)
    next
      case kf: False
      with that have "k = length ys" by simp
      with False i(1) show ?thesis by (simp add: nth_append)
    qed
    have c: "snd ((ys @ [q]) ! k) < snd ((ys @ [q]) ! i)" if "k < i" for k
      using that i(1,4) by (simp add: nth_append)
    show ?thesis
      by (rule exI [of _ i]) (use a b c i(1) in simp)
  qed
qed

lemma foldl_first_max:
  fixes p :: "'a \<times> real"
  shows "\<exists>i < length (p # ps).
           foldl (\<lambda>best q. if snd q > snd best then q else best) p ps = (p # ps) ! i
           \<and> (\<forall>k < length (p # ps). snd ((p # ps) ! k) \<le> snd ((p # ps) ! i))
           \<and> (\<forall>k < i. snd ((p # ps) ! k) < snd ((p # ps) ! i))"
  using first_max_nonempty [of "p # ps"] by simp

lemma foldl_first_min:
  fixes p :: "'a \<times> real"
  shows "\<exists>i < length (p # ps).
           foldl (\<lambda>best q. if snd q < snd best then q else best) p ps = (p # ps) ! i
           \<and> (\<forall>k < length (p # ps). snd ((p # ps) ! i) \<le> snd ((p # ps) ! k))
           \<and> (\<forall>k < i. snd ((p # ps) ! i) < snd ((p # ps) ! k))"
proof -
  let ?n = "\<lambda>x :: 'a \<times> real. (fst x, - snd x)"
  have fold: "?n (foldl (\<lambda>best q. if snd q < snd best then q else best) a xs)
                = foldl (\<lambda>best q. if snd q > snd best then q else best) (?n a) (map ?n xs)" for a xs
    by (induction xs arbitrary: a) simp_all
  from foldl_first_max [of "?n p" "map ?n ps"]
  obtain i where i: "i < length (p # ps)"
    "foldl (\<lambda>best q. if snd q > snd best then q else best) (?n p) (map ?n ps) = (?n p # map ?n ps) ! i"
    "\<forall>k < length (p # ps). snd ((?n p # map ?n ps) ! k) \<le> snd ((?n p # map ?n ps) ! i)"
    "\<forall>k < i. snd ((?n p # map ?n ps) ! k) < snd ((?n p # map ?n ps) ! i)"
    by auto
  have m: "(?n p # map ?n ps) ! k = ?n ((p # ps) ! k)" if "k < length (p # ps)" for k
    using that nth_map [of k "p # ps" ?n] by simp
  have "?n (foldl (\<lambda>best q. if snd q < snd best then q else best) p ps) = ?n ((p # ps) ! i)"
    using fold [of p ps] i(1,2) m [of i] by simp
  then have a: "foldl (\<lambda>best q. if snd q < snd best then q else best) p ps = (p # ps) ! i"
    by (metis (no_types, lifting) add.inverse_inverse prod.collapse fst_conv snd_conv)
  have b: "\<forall>k < length (p # ps). snd ((p # ps) ! i) \<le> snd ((p # ps) ! k)"
    using i(1,3) m by simp
  have c: "\<forall>k < i. snd ((p # ps) ! i) < snd ((p # ps) ! k)"
    using i(1,4) m by simp
  from i(1) a b c show ?thesis by blast
qed

lemma filter_zip_distinct:
  "distinct ls \<Longrightarrow> length ls = length xs \<Longrightarrow> i < length ls
     \<Longrightarrow> filter (\<lambda>lx. fst lx = ls ! i) (zip ls xs) = [(ls ! i, xs ! i)]"
proof (induction ls xs arbitrary: i rule: list_induct2')
  case (4 l ls x xs)
  show ?case
  proof (cases i)
    case 0
    have "filter (\<lambda>lx. fst lx = l) (zip ls xs) = []"
      using 4(2) by (auto simp: filter_empty_conv dest: set_zip_leftD)
    with 0 show ?thesis by simp
  next
    case (Suc j)
    with 4 have "ls ! j \<noteq> l" by auto
    with Suc 4 show ?thesis by auto
  qed
qed simp_all

lemma scored_frame_columns:
  assumes "scored_frame df"
  obtains ts cs ps ss where
    "map_of (columns df) ''text'' = Some (ObjectCol ts)"
    "map_of (columns df) ''sentiment_class'' = Some (ObjectCol cs)"
    "map_of (columns df) ''polarity'' = Some (FloatCol (map Some ps))"
    "map_of (columns df) ''subjectivity'' = Some (FloatCol ss)"
    "list_all (\<lambda>c. \<not> pd_isna c) cs"
    "length ts = length (index df)" "length cs = length (index df)"
    "length ps = length (index df)"
proof -
  from assms have wf: "wf_frame df" by (simp add: scored_frame_def)
  from assms obtain ts where ts: "map_of (columns df) ''text'' = Some (ObjectCol ts)"
    by (auto simp: scored_frame_def split: option.splits column.splits)
  from assms obtain cs where cs: "map_of (columns df) ''sentiment_class'' = Some (ObjectCol cs)"
    "list_all (\<lambda>c. \<not> pd_isna c) cs"
    by (auto simp: scored_frame_def split: option.splits column.splits)
  from assms obtain xs where xs: "map_of (columns df) ''polarity'' = Some (FloatCol xs)"
    "list_all (\<lambda>p. p \<noteq> None) xs"
    by (auto simp: scored_frame_def split: option.splits column.splits)
  from assms obtain ss where ss: "map_of (columns df) ''subjectivity'' = Some (FloatCol ss)"
    by (auto simp: scored_frame_def split: option.splits column.splits)
  from xs(2) have "map Some (map the xs) = xs"
    by (induction xs) auto
  with xs(1) have ps: "map_of (columns df) ''polarity'' = Some (FloatCol (map Some (map the xs)))"
    by simp
  from wf_frame_column [OF wf ts] wf_frame_column [OF wf cs(1)] wf_frame_column [OF wf xs(1)]
  have "length ts = length (index df)" "length cs = length (index df)"
    "length (map the xs) = length (index df)" by simp_all
  with ts cs ps ss that show thesis by blast
qed

lemma loc_member:
  assumes "map_of (columns df) name = Some col" "length (cells col) = length (index df)"
    "label \<in> set (index df)"
  shows "\<exists>x. loc df label name = Inr x"
proof -
  from assms(3) obtain i where i: "i < length (index df)" "index df ! i = label"
    by (auto simp: in_set_conv_nth)
  with assms(2) have "(label, cells col ! i) \<in> set (zip (index df) (cells col))"
    by (auto simp: set_zip)
  then have "filter (\<lambda>lx. fst lx = label) (zip (index df) (cells col)) \<noteq> []"
    unfolding filter_empty_conv by force
  then have "map snd (filter (\<lambda>lx. fst lx = label) (zip (index df) (cells col))) \<noteq> []"
    by simp
  then show ?thesis using assms(1)
    by (auto simp: loc_def getitem_def split: list.splits)
qed

lemma loc_distinct:
  assumes "map_of (columns df) name = Some col" "length (cells col) = length (index df)"
    "distinct (index df)" "i < length (index df)"
  shows "loc df (index df ! i) name = Inr (Scalar (cells col ! i))"
  using assms filter_zip_distinct [of "index df" "cells col" i]
  by (simp add: loc_def getitem_def)

lemma extremal_text_returns:
  assumes "scored_frame df" "index df \<noteq> []"
  shows "\<exists>x y. extremal_text idxmax df = Inr x \<and> extremal_text idxmin df = Inr y"
proof -
  from assms(1) obtain ts ps where c:
    "map_of (columns df) ''text'' = Some (ObjectCol ts)"
    "map_of (columns df) ''polarity'' = Some (FloatCol (map Some ps))"
    "length ts = length (index df)" "length ps = length (index df)"
    by (rule scored_frame_columns)
  let ?zs = "zip (index df) ps"
  have ne: "?zs \<noteq> []" using assms(2) c(4) by (cases "index df"; cases ps) auto
  then obtain p rest where zs: "?zs = p # rest" by (cases ?zs) auto
  have lab: "labelled (index df) (map Some ps) = p # rest"
    using labelled_all [of "index df" ps] c(4) zs by simp
  have len: "length ?zs = length (index df)" using c(4) by simp
  have inidx: "fst (?zs ! i) \<in> set (index df)" if "i < length ?zs" for i
    using that c(4) by simp
  from foldl_first_max [of p rest] obtain i where
    i: "i < length ?zs" "foldl (\<lambda>best q. if snd q > snd best then q else best) p rest = ?zs ! i"
    using zs by auto
  from foldl_first_min [of p rest] obtain j where
    j: "j < length ?zs" "foldl (\<lambda>best q. if snd q < snd best then q else best) p rest = ?zs ! j"
    using zs by auto
  have tl: "length (cells (ObjectCol ts)) = length (index df)" using c(3) by simp
  from loc_member [OF c(1) tl inidx [OF i(1)]] obtain x where
    x: "loc df (fst (?zs ! i)) ''text'' = Inr x" by blast
  from loc_member [OF c(1) tl inidx [OF j(1)]] obtain y where
    y: "loc df (fst (?zs ! j)) ''text'' = Inr y" by blast
  have "extremal_text idxmax df = Inr (Some x)"
    using assms(2) c(2) lab i(2) x
    by (simp add: extremal_text_def len_def getitem_def idxmax_def)
  moreover have "extremal_text idxmin df = Inr (Some y)"
    using assms(2) c(2) lab j(2) y
    by (simp add: extremal_text_def len_def getitem_def idxmin_def)
  ultimately show ?thesis by blast
qed

lemma extremal_text_first:
  assumes "scored_frame df" "index df \<noteq> []" "distinct (index df)"
    and "map_of (columns df) ''text'' = Some (ObjectCol ts)"
    and "map_of (columns df) ''polarity'' = Some (FloatCol (map Some ps))"
  shows "\<exists>i j. i < length ps \<and> j < length ps
           \<and> extremal_text idxmax df = Inr (Some (Scalar (Obj (ts ! i))))
           \<and> (\<forall>k < length ps. ps ! k \<le> ps ! i) \<and> (\<forall>k < i. ps ! k < ps ! i)
           \<and> extremal_text idxmin df = Inr (Some (Scalar (Obj (ts ! j))))
           \<and> (\<forall>k < length ps. ps ! j \<le> ps ! k) \<and> (\<forall>k < j. ps ! j < ps ! k)"
proof -
  from assms(1) have wf: "wf_frame df" by (simp add: scored_frame_def)
  from wf_frame_column [OF wf assms(4)] wf_frame_column [OF wf assms(5)]
  have l: "length ts = length (index df)" "length ps = length (index df)" by simp_all
  let ?zs = "zip (index df) ps"
  have ne: "?zs \<noteq> []" using assms(2) l(2) by (cases "index df"; cases ps) auto
  then obtain p rest where zs: "?zs = p # rest" by (cases ?zs) auto
  have lab: "labelled (index df) (map Some ps) = p # rest"
    using labelled_all [of "index df" ps] l(2) zs by simp
  have len: "length ?zs = length ps" using l(2) by simp
  have nth: "?zs ! k = (index df ! k, ps ! k)" if "k < length ps" for k
    using that l(2) by simp
  have tl: "length (cells (ObjectCol ts)) = length (index df)" using l(1) by simp
  have cell: "cells (ObjectCol ts) ! k = Obj (ts ! k)" if "k < length ps" for k
    using that l by simp
  from foldl_first_max [of p rest] obtain i where
    i: "i < length ps" "foldl (\<lambda>best q. if snd q > snd best then q else best) p rest = ?zs ! i"
      "\<forall>k < length ps. snd (?zs ! k) \<le> snd (?zs ! i)" "\<forall>k < i. snd (?zs ! k) < snd (?zs ! i)"
    unfolding zs [symmetric] len by auto
  from foldl_first_min [of p rest] obtain j where
    j: "j < length ps" "foldl (\<lambda>best q. if snd q < snd best then q else best) p rest = ?zs ! j"
      "\<forall>k < length ps. snd (?zs ! j) \<le> snd (?zs ! k)" "\<forall>k < j. snd (?zs ! j) < snd (?zs ! k)"
    unfolding zs [symmetric] len by auto
  have li: "loc df (index df ! i) ''text'' = Inr (Scalar (Obj (ts ! i)))"
    using loc_distinct [OF assms(4) tl assms(3), of i] i(1) l cell [of i] by simp
  have lj: "loc df (index df ! j) ''text'' = Inr (Scalar (Obj (ts ! j)))"
    using loc_distinct [OF assms(4) tl assms(3), of j] j(1) l cell [of j] by simp
  have a: "extremal_text idxmax df = Inr (Some (Scalar (Obj (ts ! i))))"
    using assms(2,5) lab i(1,2) nth [of i] li
    by (simp add: extremal_text_def len_def getitem_def idxmax_def)
  have b: "extremal_text idxmin df = Inr (Some (Scalar (Obj (ts ! j))))"
    using assms(2,5) lab j(1,2) nth [of j] lj
    by (simp add: extremal_text_def len_def getitem_def idxmin_def)
  have mi: "\<forall>k < length ps. ps ! k \<le> ps ! i" "\<forall>k < i. ps ! k < ps ! i"
    using i(1,3,4) nth by auto
  have mj: "\<forall>k < length ps. ps ! j \<le> ps ! k" "\<forall>k < j. ps ! j < ps ! k"
    using j(1,3,4) nth by auto
  from i(1) j(1) a b mi mj show ?thesis by blast
qed

lemma summary_of_scored_frame:
  assumes "scored_frame df" "index df \<noteq> []"
    and "map_of (columns df) ''sentiment_class'' = Some (ObjectCol cs)"
  shows "\<exists>s. get_sentiment_summary df = Inr s \<and> total_texts s = length (index df)
           \<and> sentiment_counts s = value_counts (ObjectCol cs)
           \<and> sentiment_percentages s
               = (\<lambda>k. map_option (\<lambda>v. v * 100) (value_counts_normalized (ObjectCol cs) k))
           \<and> Inr (most_positive_text s) = extremal_text idxmax df
           \<and> Inr (most_negative_text s) = extremal_text idxmin df"
proof -
  from assms(1) obtain ps ss where c:
    "map_of (columns df) ''polarity'' = Some (FloatCol (map Some ps))"
    "map_of (columns df) ''subjectivity'' = Some (FloatCol ss)"
    by (rule scored_frame_columns)
  from extremal_text_returns [OF assms(1,2)] obtain x y where
    xy: "extremal_text idxmax df = Inr x" "extremal_text idxmin df = Inr y" by blast
  have "''sentiment_class'' \<in> set (map fst (columns df))"
    using assms(3) by (metis map_of_eq_None_iff option.distinct(1) set_map)
  then show ?thesis using assms(3) c xy
    by (simp add: get_sentiment_summary_def getitem_def len_def)
qed

lemma DataFrame_scored:
  assumes "records \<noteq> []"
  shows "scored_frame (DataFrame records) \<and> distinct (index (DataFrame records))
         \<and> index (DataFrame records) \<noteq> []"
  using assms
  by (simp add: scored_frame_def DataFrame_def wf_frame_def list_all_iff distinct_map
      inj_on_def)

text \<open>
  C8. On a frame of scored records with at least one row the summary is returned; the
  count of a class is the number of records of that class, its percentage is 100 times
  its count divided by the total, a class no record has is in neither dictionary, and
  the percentages add up to 100.
\<close>

theorem summary_counts:
  assumes "scored_frame df" and "index df \<noteq> []"
    and "map_of (columns df) ''sentiment_class'' = Some (ObjectCol cs)"
  shows "\<exists>s. get_sentiment_summary df = Inr s
           \<and> total_texts s = length cs
           \<and> (\<forall>c. sentiment_counts s (Obj c)
                  = (if c \<in> set cs then Some (count_list cs c) else None))
           \<and> (\<forall>c. sentiment_percentages s (Obj c)
                  = (if c \<in> set cs
                     then Some (100 * real (count_list cs c) / real (total_texts s)) else None))
           \<and> dom (sentiment_counts s) = Obj ` set cs
           \<and> dom (sentiment_percentages s) = Obj ` set cs
           \<and> (\<Sum>k \<in> dom (sentiment_percentages s). the (sentiment_percentages s k)) = 100"
proof -
  from assms(1) have wf: "wf_frame df" by (simp add: scored_frame_def)
  from assms(1,3) have nn: "list_all (\<lambda>c. \<not> pd_isna c) cs"
    by (simp add: scored_frame_def)
  from wf_frame_column [OF wf assms(3)] have len: "length cs = length (index df)" by simp
  with assms(2) have ne: "cs \<noteq> []" by auto
  have flt: "filter (\<lambda>x. \<not> isnull x) (map Obj cs) = map Obj cs"
    using nn by (induction cs) simp_all
  have cnt: "count_list (map Obj cs) (Obj c) = count_list cs c" for c
    by (induction cs) simp_all
  have vc: "value_counts (ObjectCol cs) k
             = (if k \<in> Obj ` set cs then Some (count_list (map Obj cs) k) else None)" for k
    by (simp add: value_counts_tally flt)
  from summary_of_scored_frame [OF assms] obtain s where
    s: "get_sentiment_summary df = Inr s" "total_texts s = length (index df)"
      "sentiment_counts s = value_counts (ObjectCol cs)"
      "sentiment_percentages s
         = (\<lambda>k. map_option (\<lambda>v. v * 100) (value_counts_normalized (ObjectCol cs) k))"
    by blast
  have pc: "sentiment_percentages s k
             = (if k \<in> Obj ` set cs
                then Some (real (count_list (map Obj cs) k) / real (length cs) * 100) else None)"
    for k
    by (simp add: s(4) value_counts_normalized_def vc flt)
  have d1: "dom (sentiment_counts s) = Obj ` set cs"
    by (auto simp: s(3) vc dom_def)
  have d2: "dom (sentiment_percentages s) = Obj ` set cs"
    by (auto simp: pc dom_def)
  have "(\<Sum>k \<in> Obj ` set cs. the (sentiment_percentages s k))
          = (\<Sum>k \<in> Obj ` set cs. real (count_list (map Obj cs) k) / real (length cs) * 100)"
    by (rule sum.cong) (simp_all add: pc)
  also have "\<dots> = real (\<Sum>k \<in> Obj ` set cs. count_list (map Obj cs) k) / real (length cs) * 100"
    by (simp add: sum_divide_distrib sum_distrib_right)
  also have "(\<Sum>k \<in> Obj ` set cs. count_list (map Obj cs) k) = length (map Obj cs)"
    by (rule sum_count_set) simp_all
  finally have total: "(\<Sum>k \<in> Obj ` set cs. the (sentiment_percentages s k)) = 100"
    using ne by simp
  have a: "sentiment_counts s (Obj c) = (if c \<in> set cs then Some (count_list cs c) else None)"
    for c
    by (auto simp: s(3) vc cnt)
  have b: "sentiment_percentages s (Obj c)
            = (if c \<in> set cs
               then Some (100 * real (count_list cs c) / real (total_texts s)) else None)" for c
    by (auto simp: pc cnt s(2) len)
  from s(1,2) len a b d1 d2 total show ?thesis by auto
qed

theorem summary_counts_witness:
  "scored_frame
     \<lparr>index = [0, 1, 2],
        columns =
          [(''text'', ObjectCol [Str (ascii ''bom''), Str (ascii ''ruim''), Str (ascii ''adoro'')]),
           (''sentiment_class'',
            ObjectCol [Str (ascii ''positivo''), Str (ascii ''negativo''),
                       Str (ascii ''positivo'')]),
           (''polarity'', FloatCol [Some (3 / 10), Some (- (3 / 10)), Some (3 / 10)]),
           (''subjectivity'', FloatCol [Some 0, Some 0, Some 0])]\<rparr>
   \<and> (\<exists>s. get_sentiment_summary
          \<lparr>index = [0, 1, 2],
        columns =
          [(''text'', ObjectCol [Str (ascii ''bom''), Str (ascii ''ruim''), Str (ascii ''adoro'')]),
           (''sentiment_class'',
            ObjectCol [Str (ascii ''positivo''), Str (ascii ''negativo''),
                       Str (ascii ''positivo'')]),
           (''polarity'', FloatCol [Some (3 / 10), Some (- (3 / 10)), Some (3 / 10)]),
           (''subjectivity'', FloatCol [Some 0, Some 0, Some 0])]\<rparr> = Inr s
        \<and> total_texts s = 3
        \<and> sentiment_counts s (Obj (Str (ascii ''positivo''))) = Some 2
        \<and> sentiment_counts s (Obj (Str (ascii ''negativo''))) = Some 1
        \<and> sentiment_counts s (Obj (Str (ascii ''neutro''))) = None
        \<and> sentiment_percentages s (Obj (Str (ascii ''positivo''))) = Some (200 / 3)
        \<and> sentiment_percentages s (Obj (Str (ascii ''neutro''))) = None)"
proof -
  let ?df = "\<lparr>index = [0, 1, 2],
        columns =
          [(''text'', ObjectCol [Str (ascii ''bom''), Str (ascii ''ruim''), Str (ascii ''adoro'')]),
           (''sentiment_class'',
            ObjectCol [Str (ascii ''positivo''), Str (ascii ''negativo''),
                       Str (ascii ''positivo'')]),
           (''polarity'', FloatCol [Some (3 / 10), Some (- (3 / 10)), Some (3 / 10)]),
           (''subjectivity'', FloatCol [Some 0, Some 0, Some 0])]\<rparr>"
  let ?cs = "[Str (ascii ''positivo''), Str (ascii ''negativo''), Str (ascii ''positivo'')]"
  have sf: "scored_frame ?df" by (simp add: scored_frame_def wf_frame_def del: not_None_eq)
  have ne: "index ?df \<noteq> []" by simp
  have col: "map_of (columns ?df) ''sentiment_class'' = Some (ObjectCol ?cs)" by simp
  have lbl: "ascii ''positivo'' \<noteq> ascii ''negativo''"
    "ascii ''negativo'' \<noteq> ascii ''positivo''"
    "ascii ''neutro'' \<noteq> ascii ''positivo''" "ascii ''neutro'' \<noteq> ascii ''negativo''"
    by (simp_all add: ascii_def)
  from summary_counts [OF sf ne col] obtain s where
    s: "get_sentiment_summary ?df = Inr s" "total_texts s = length ?cs"
      "\<forall>c. sentiment_counts s (Obj c) = (if c \<in> set ?cs then Some (count_list ?cs c) else None)"
      "\<forall>c. sentiment_percentages s (Obj c)
             = (if c \<in> set ?cs
                then Some (100 * real (count_list ?cs c) / real (total_texts s)) else None)"
    by (elim exE conjE)
  have t: "total_texts s = 3" using s(2) by simp
  have c1: "sentiment_counts s (Obj (Str (ascii ''positivo''))) = Some 2"
    using s(3) [rule_format, of "Str (ascii ''positivo'')"] lbl by simp
  have c2: "sentiment_counts s (Obj (Str (ascii ''negativo''))) = Some 1"
    using s(3) [rule_format, of "Str (ascii ''negativo'')"] lbl by simp
  have c3: "sentiment_counts s (Obj (Str (ascii ''neutro''))) = None"
    using s(3) [rule_format, of "Str (ascii ''neutro'')"] lbl by simp
  have p1: "sentiment_percentages s (Obj (Str (ascii ''positivo''))) = Some (200 / 3)"
    using s(4) [rule_format, of "Str (ascii ''positivo'')"] lbl t by simp
  have p3: "sentiment_percentages s (Obj (Str (ascii ''neutro''))) = None"
    using s(4) [rule_format, of "Str (ascii ''neutro'')"] lbl by simp
  from s(1) t c1 c2 c3 p1 p3 have
    "\<exists>s. get_sentiment_summary ?df = Inr s
        \<and> total_texts s = 3
        \<and> sentiment_counts s (Obj (Str (ascii ''positivo''))) = Some 2
        \<and> sentiment_counts s (Obj (Str (ascii ''negativo''))) = Some 1
        \<and> sentiment_counts s (Obj (Str (ascii ''neutro''))) = None
        \<and> sentiment_percentages s (Obj (Str (ascii ''positivo''))) = Some (200 / 3)
        \<and> sentiment_percentages s (Obj (Str (ascii ''neutro''))) = None"
    by (intro exI [of _ s] conjI)
  with sf show ?thesis by (rule conjI)
qed

text \<open>
  C9. On a frame of scored records with at least one row and distinct row labels, the
  most positive text is the text of the first record whose polarity is maximal: no record
  has a larger polarity and every earlier record has a strictly smaller one. The most
  negative text is the text of the first record whose polarity is minimal.
\<close>

theorem summary_extremal_texts:
  assumes "scored_frame df" and "index df \<noteq> []" and "distinct (index df)"
    and "map_of (columns df) ''text'' = Some (ObjectCol ts)"
    and "map_of (columns df) ''polarity'' = Some (FloatCol (map Some ps))"
  shows "\<exists>s i j. get_sentiment_summary df = Inr s \<and> i < length ps \<and> j < length ps
           \<and> most_positive_text s = Some (Scalar (Obj (ts ! i)))
           \<and> (\<forall>k < length ps. ps ! k \<le> ps ! i) \<and> (\<forall>k < i. ps ! k < ps ! i)
           \<and> most_negative_text s = Some (Scalar (Obj (ts ! j)))
           \<and> (\<forall>k < length ps. ps ! j \<le> ps ! k) \<and> (\<forall>k < j. ps ! j < ps ! k)"
proof -
  from assms(1) obtain cs where cs: "map_of (columns df) ''sentiment_class'' = Some (ObjectCol cs)"
    by (rule scored_frame_columns)
  from summary_of_scored_frame [OF assms(1,2) cs] obtain s where
    s: "get_sentiment_summary df = Inr s"
      "Inr (most_positive_text s) = extremal_text idxmax df"
      "Inr (most_negative_text s) = extremal_text idxmin df"
    by blast
  from extremal_text_first [OF assms] obtain i j where
    ij: "i < length ps" "j < length ps"
      "extremal_text idxmax df = Inr (Some (Scalar (Obj (ts ! i))))"
      "\<forall>k < length ps. ps ! k \<le> ps ! i" "\<forall>k < i. ps ! k < ps ! i"
      "extremal_text idxmin df = Inr (Some (Scalar (Obj (ts ! j))))"
      "\<forall>k < length ps. ps ! j \<le> ps ! k" "\<forall>k < j. ps ! j < ps ! k"
    by blast
  from s(2) ij(3) have p: "most_positive_text s = Some (Scalar (Obj (ts ! i)))" by simp
  from s(3) ij(6) have n: "most_negative_text s = Some (Scalar (Obj (ts ! j)))" by simp
  from s(1) ij(1,2,4,5,7,8) p n show ?thesis by blast
qed

theorem summary_extremal_texts_witness:
  "scored_frame
     \<lparr>index = [0, 1, 2],
        columns =
          [(''text'', ObjectCol [Str (ascii ''bom''), Str (ascii ''ruim''), Str (ascii ''adoro'')]),
           (''sentiment_class'',
            ObjectCol [Str (ascii ''positivo''), Str (ascii ''negativo''),
                       Str (ascii ''positivo'')]),
           (''polarity'', FloatCol [Some (3 / 10), Some (- (3 / 10)), Some (3 / 10)]),
           (''subjectivity'', FloatCol [Some 0, Some 0, Some 0])]\<rparr>
   \<and> (\<exists>s. get_sentiment_summary
          \<lparr>index = [0, 1, 2],
        columns =
          [(''text'', ObjectCol [Str (ascii ''bom''), Str (ascii ''ruim''), Str (ascii ''adoro'')]),
           (''sentiment_class'',
            ObjectCol [Str (ascii ''positivo''), Str (ascii ''negativo''),
                       Str (ascii ''positivo'')]),
           (''polarity'', FloatCol [Some (3 / 10), Some (- (3 / 10)), Some (3 / 10)]),
           (''subjectivity'', FloatCol [Some 0, Some 0, Some 0])]\<rparr> = Inr s
        \<and> most_positive_text s = Some (Scalar (Obj (Str (ascii ''bom''))))
        \<and> most_negative_text s = Some (Scalar (Obj (Str (ascii ''ruim'')))))"
proof -
  let ?df = "\<lparr>index = [0, 1, 2],
        columns =
          [(''text'', ObjectCol [Str (ascii ''bom''), Str (ascii ''ruim''), Str (ascii ''adoro'')]),
           (''sentiment_class'',
            ObjectCol [Str (ascii ''positivo''), Str (ascii ''negativo''),
                       Str (ascii ''positivo'')]),
           (''polarity'', FloatCol [Some (3 / 10), Some (- (3 / 10)), Some (3 / 10)]),
           (''subjectivity'', FloatCol [Some 0, Some 0, Some 0])]\<rparr>"
  let ?ts = "[Str (ascii ''bom''), Str (ascii ''ruim''), Str (ascii ''adoro'')]"
  let ?ps = "[3 / 10, - (3 / 10), 3 / 10] :: real list"
  have sf: "scored_frame ?df" by (simp add: scored_frame_def wf_frame_def del: not_None_eq)
  have ne: "index ?df \<noteq> []" by simp
  have di: "distinct (index ?df)" by simp
  have tc: "map_of (columns ?df) ''text'' = Some (ObjectCol ?ts)" by simp
  have pc: "map_of (columns ?df) ''polarity'' = Some (FloatCol (map Some ?ps))" by simp
  from summary_extremal_texts [OF sf ne di tc pc] obtain s i j where
    s: "get_sentiment_summary ?df = Inr s" "i < length ?ps" "j < length ?ps"
      "most_positive_text s = Some (Scalar (Obj (?ts ! i)))"
      "\<forall>k < length ?ps. ?ps ! k \<le> ?ps ! i" "\<forall>k < i. ?ps ! k < ?ps ! i"
      "most_negative_text s = Some (Scalar (Obj (?ts ! j)))"
      "\<forall>k < length ?ps. ?ps ! j \<le> ?ps ! k"
    by blast
  have i0: "i = 0"
  proof (rule ccontr)
    assume "i \<noteq> 0"
    with s(2) have "i = 1 \<or> i = 2" by auto
    then show False
    proof
      assume "i = 1"
      with s(5) [rule_format, of 0] show False by simp
    next
      assume "i = 2"
      with s(6) [rule_format, of 0] show False by simp
    qed
  qed
  have j1: "j = 1"
  proof (rule ccontr)
    assume "j \<noteq> 1"
    with s(3) have "j = 0 \<or> j = 2" by auto
    then show False
    proof
      assume "j = 0"
      with s(8) [rule_format, of 1] show False by simp
    next
      assume "j = 2"
      with s(8) [rule_format, of 1] show False by simp
    qed
  qed
  from sf s(1,4,7) i0 j1 show ?thesis by auto
qed

end
